theory Spec2Isabelle
  imports Main "HOL-Library.Sublist" "HOL-Library.List_Lexorder" "HOL-Library.Char_ord"
begin

section \<open>Strings\<close>

text \<open>
  A Python \<open>str\<close> is represented by the bytes of its UTF-8 encoding, so the check mark
  U+2713 of the source is the three bytes E2 9C 93. Case mapping and the whitespace
  class act on the ASCII range, which is all that the literals of the program use.
\<close>

definition lower_char :: "char \<Rightarrow> char" where
  "lower_char c =
     (case map_of (zip ''ABCDEFGHIJKLMNOPQRSTUVWXYZ'' ''abcdefghijklmnopqrstuvwxyz'') c of
        None \<Rightarrow> c | Some d \<Rightarrow> d)"

definition upper_char :: "char \<Rightarrow> char" where
  "upper_char c =
     (case map_of (zip ''abcdefghijklmnopqrstuvwxyz'' ''ABCDEFGHIJKLMNOPQRSTUVWXYZ'') c of
        None \<Rightarrow> c | Some d \<Rightarrow> d)"

definition lower :: "string \<Rightarrow> string" where
  "lower s = map lower_char s"

definition upper :: "string \<Rightarrow> string" where
  "upper s = map upper_char s"

text \<open>\<open>contains m s\<close> is Python's \<open>m in s\<close> on strings.\<close>

fun contains :: "string \<Rightarrow> string \<Rightarrow> bool" where
  "contains m [] = (m = [])"
| "contains m (c # cs) = (prefix m (c # cs) \<or> contains m cs)"

section \<open>Document sections (schemas/base.py)\<close>

datatype DocumentSection =
    TRUST_REGISTRATION
  | DONOR_DETAILS
  | TRUSTEE_DETAILS
  | BENEFICIARY_DETAILS
  | NOMINATED_BANK_ACCOUNT
  | SECURITY_INFORMATION
  | DATA_PRIVACY_STATEMENT

text \<open>Iterating over the enumeration yields its members in the order of declaration.\<close>

definition all_sections :: "DocumentSection list" where
  "all_sections =
     [TRUST_REGISTRATION, DONOR_DETAILS, TRUSTEE_DETAILS, BENEFICIARY_DETAILS,
      NOMINATED_BANK_ACCOUNT, SECURITY_INFORMATION, DATA_PRIVACY_STATEMENT]"

fun section_value :: "DocumentSection \<Rightarrow> string" where
  "section_value TRUST_REGISTRATION = ''trust_registration''"
| "section_value DONOR_DETAILS = ''donor_details''"
| "section_value TRUSTEE_DETAILS = ''trustee_details''"
| "section_value BENEFICIARY_DETAILS = ''beneficiary_details''"
| "section_value NOMINATED_BANK_ACCOUNT = ''nominated_bank_account''"
| "section_value SECURITY_INFORMATION = ''security_information''"
| "section_value DATA_PRIVACY_STATEMENT = ''data_privacy_statement''"

section \<open>Section classifier (processors/pdf\_processor.py)\<close>

text \<open>The marker lists of \<open>PDFProcessor.identify_sections\<close>, one per \<open>if any(...)\<close>.\<close>

fun section_markers :: "DocumentSection \<Rightarrow> string list" where
  "section_markers TRUST_REGISTRATION =
     [''trust registration'', ''hmrc unique reference'', ''urn'', ''proof of registration'']"
| "section_markers DONOR_DETAILS =
     [''details of donor'', ''donor details'', ''person who made the gift'',
      ''national insurance number'', ''permanent residential address'']"
| "section_markers TRUSTEE_DETAILS =
     [''details of trustees'', ''trustee details'', ''individual trustee'',
      ''first individual trustee'', ''section c'', ''nominated contact'']"
| "section_markers BENEFICIARY_DETAILS =
     [''beneficiary details'', ''details of beneficiary'', ''section e'',
      ''named beneficiary'', ''bare trust'']"
| "section_markers NOMINATED_BANK_ACCOUNT =
     [''nominated bank account'', ''section f'', ''bank account'',
      ''building society account'', ''cash withdrawals'']"
| "section_markers SECURITY_INFORMATION =
     [''username and security'', ''section g'', ''security question'',
      ''online account'', ''mother'' @ [CHR 0x27] @ ''s maiden name'', ''first school'']"
| "section_markers DATA_PRIVACY_STATEMENT =
     [''data privacy statement'', ''privacy policy'', ''identity verification'',
      ''fraud prevention'', ''communication preference'', ''trustee signature'']"

text \<open>\<open>any(marker in text_lower for marker in [...])\<close>\<close>

definition any_marker :: "DocumentSection \<Rightarrow> string \<Rightarrow> bool" where
  "any_marker sec text_lower = list_ex (\<lambda>marker. contains marker text_lower) (section_markers sec)"

text \<open>
  The result dictionary is an association list in insertion order; the comprehension
  \<open>{section: [] for section in DocumentSection}\<close> inserts every section once, so
  \<open>result[sec].append(page_num)\<close> rewrites the entry of \<open>sec\<close> in place.
\<close>

definition append_page :: "nat \<Rightarrow> DocumentSection \<Rightarrow> (DocumentSection \<times> nat list) list
    \<Rightarrow> (DocumentSection \<times> nat list) list" where
  "append_page page_num sec result =
     map (\<lambda>(s, ps). if s = sec then (s, ps @ [page_num]) else (s, ps)) result"

text \<open>One test of the loop body: \<open>if any(...): result[sec].append(page_num)\<close>.\<close>

definition check_section :: "nat \<Rightarrow> string \<Rightarrow> DocumentSection \<Rightarrow> (DocumentSection \<times> nat list) list
    \<Rightarrow> (DocumentSection \<times> nat list) list" where
  "check_section page_num text_lower sec result =
     (if any_marker sec text_lower then append_page page_num sec result else result)"

text \<open>The loop body for one page: the seven tests in the order of the source.\<close>

definition classify_page :: "(DocumentSection \<times> nat list) list \<Rightarrow> nat \<times> string
    \<Rightarrow> (DocumentSection \<times> nat list) list" where
  "classify_page result page =
     (let page_num = fst page; text_lower = lower (snd page) in
      check_section page_num text_lower DATA_PRIVACY_STATEMENT
       (check_section page_num text_lower SECURITY_INFORMATION
        (check_section page_num text_lower NOMINATED_BANK_ACCOUNT
         (check_section page_num text_lower BENEFICIARY_DETAILS
          (check_section page_num text_lower TRUSTEE_DETAILS
           (check_section page_num text_lower DONOR_DETAILS
            (check_section page_num text_lower TRUST_REGISTRATION result)))))))"

text \<open>
  The page-text mapping is the list of its items in insertion order; a dictionary has
  each key once, which is the hypothesis \<open>distinct (map fst extracted_text)\<close> below.
\<close>

definition identify_sections :: "(nat \<times> string) list \<Rightarrow> (DocumentSection \<times> nat list) list" where
  "identify_sections extracted_text =
     foldl classify_page (map (\<lambda>section. (section, [])) all_sections) extracted_text"

section \<open>Properties of the classifier\<close>

lemma all_sections_complete: "set all_sections = UNIV"
proof -
  have "s \<in> set all_sections" for s
    by (cases s) (simp_all add: all_sections_def)
  then show ?thesis by auto
qed

lemma all_sections_distinct: "distinct all_sections"
  by (simp add: all_sections_def)

lemma append_page_keys: "map fst (append_page p sec result) = map fst result"
  by (induction result) (auto simp: append_page_def)

lemma check_section_keys: "map fst (check_section p t sec result) = map fst result"
  by (simp add: check_section_def append_page_keys)

lemma classify_page_keys: "map fst (classify_page result page) = map fst result"
  by (simp add: classify_page_def Let_def check_section_keys)

lemma foldl_classify_keys: "map fst (foldl classify_page result pages) = map fst result"
  by (induction pages arbitrary: result) (simp_all add: classify_page_keys)

lemma identify_sections_keys: "map fst (identify_sections pages) = all_sections"
  by (simp add: identify_sections_def foldl_classify_keys comp_def)

text \<open>The entry of one section after one test.\<close>

lemma map_of_append_page:
  "map_of (append_page p sec result) s =
     (if s = sec then map_option (\<lambda>ps. ps @ [p]) (map_of result s) else map_of result s)"
  by (induction result) (auto simp: append_page_def)

lemma map_of_check_section:
  "map_of (check_section p t sec result) s =
     (if s = sec \<and> any_marker sec t then map_option (\<lambda>ps. ps @ [p]) (map_of result s)
      else map_of result s)"
  by (simp add: check_section_def map_of_append_page)

lemma map_of_classify_page:
  "map_of (classify_page result page) s =
     (if any_marker s (lower (snd page))
      then map_option (\<lambda>ps. ps @ [fst page]) (map_of result s) else map_of result s)"
  by (cases s) (simp_all add: classify_page_def Let_def map_of_check_section)

lemma map_of_foldl_classify:
  "map_of result s = Some ps \<Longrightarrow>
   map_of (foldl classify_page result pages) s =
     Some (ps @ map fst (filter (\<lambda>page. any_marker s (lower (snd page))) pages))"
  by (induction pages arbitrary: result ps) (simp_all add: map_of_classify_page)

lemma map_of_initial: "map_of (map (\<lambda>section. (section, [])) all_sections) s = Some []"
  by (cases s) (simp_all add: all_sections_def)

lemma identify_sections_pages:
  "map_of (identify_sections pages) s =
     Some (map fst (filter (\<lambda>page. any_marker s (lower (snd page))) pages))"
  using map_of_foldl_classify [OF map_of_initial, where pages = pages and s = s]
  by (simp add: identify_sections_def)

text \<open>
  C9. For every page-text mapping, \<open>identify_sections\<close> returns a mapping whose keys are
  exactly the seven document sections, each once (a section without matching pages is
  mapped to the empty list), and the page list of each section holds every page index
  at most once, in the order in which the pages appear in the input mapping.
\<close>

theorem identify_sections_shape:
  assumes "distinct (map fst extracted_text)"
  shows "set (map fst (identify_sections extracted_text)) = UNIV
       \<and> distinct (map fst (identify_sections extracted_text))
       \<and> (\<forall>section. \<exists>pages. map_of (identify_sections extracted_text) section = Some pages
             \<and> distinct pages \<and> subseq pages (map fst extracted_text))"
proof -
  have keys: "map fst (identify_sections extracted_text) = all_sections"
    by (rule identify_sections_keys)
  have pages: "distinct (map fst (filter P extracted_text))
      \<and> subseq (map fst (filter P extracted_text)) (map fst extracted_text)" for P
    using assms by (simp add: distinct_map_filter subseq_map)
  show ?thesis
    using pages by (simp add: keys all_sections_complete all_sections_distinct identify_sections_pages)
qed

theorem identify_sections_shape_witness:
  "distinct (map fst [(0::nat, ''Donor Details''), (1, ''nothing here''), (2, ''URN and donor details'')])
   \<and> identify_sections [(0, ''Donor Details''), (1, ''nothing here''), (2, ''URN and donor details'')]
     = [(TRUST_REGISTRATION, [2]), (DONOR_DETAILS, [0, 2]), (TRUSTEE_DETAILS, []),
        (BENEFICIARY_DETAILS, []), (NOMINATED_BANK_ACCOUNT, []), (SECURITY_INFORMATION, []),
        (DATA_PRIVACY_STATEMENT, [])]
   \<and> (\<exists>pages. map_of (identify_sections [(0, ''Donor Details''), (1, ''nothing here''),
          (2, ''URN and donor details'')]) DONOR_DETAILS = Some pages
          \<and> distinct pages \<and> subseq pages [0, 1, 2])"
  using identify_sections_shape
    [of "[(0::nat, ''Donor Details''), (1, ''nothing here''), (2, ''URN and donor details'')]"]
  by (simp add: identify_sections_def classify_page_def check_section_def append_page_def
      any_marker_def lower_def lower_char_def all_sections_def)

section \<open>Values and dictionaries\<close>

text \<open>
  The values of a raw extraction and of a parsed model response: JSON values. A
  dictionary is the list of its items in insertion order, with each key once.
\<close>

datatype val =
    VNull
  | VBool bool
  | VInt int
  | VStr string
  | VList "val list"
  | VDict "(string \<times> val) list"

type_synonym dict = "(string \<times> val) list"

text \<open>\<open>d[k] = v\<close>: an existing key keeps its position, a new key goes last.\<close>

fun dict_set :: "dict \<Rightarrow> string \<Rightarrow> val \<Rightarrow> dict" where
  "dict_set [] k v = [(k, v)]"
| "dict_set ((k', v') # d) k v =
     (if k' = k then (k, v) # d else (k', v') # dict_set d k v)"

text \<open>\<open>d.get(k)\<close> is \<open>map_of d k\<close>, with \<open>None\<close> for Python's \<open>None\<close> default.\<close>

definition dict_has :: "dict \<Rightarrow> string \<Rightarrow> bool" where
  "dict_has d k = (map_of d k \<noteq> None)"

text \<open>\<open>d.pop(k)\<close> for a key that is present: the dictionary without the key.\<close>

definition dict_pop :: "dict \<Rightarrow> string \<Rightarrow> dict" where
  "dict_pop d k = filter (\<lambda>item. fst item \<noteq> k) d"

text \<open>Truth value of a Python object in a condition.\<close>

fun truthy :: "val \<Rightarrow> bool" where
  "truthy VNull = False"
| "truthy (VBool b) = b"
| "truthy (VInt n) = (n \<noteq> 0)"
| "truthy (VStr s) = (s \<noteq> [])"
| "truthy (VList xs) = (xs \<noteq> [])"
| "truthy (VDict d) = (d \<noteq> [])"

text \<open>\<open>if d.get(k)\<close>\<close>

definition get_truthy :: "dict \<Rightarrow> string \<Rightarrow> bool" where
  "get_truthy d k = (case map_of d k of None \<Rightarrow> False | Some v \<Rightarrow> truthy v)"

text \<open>\<open>str.strip()\<close>: the whitespace of \<open>str.isspace\<close> in the ASCII range.\<close>

definition is_space :: "char \<Rightarrow> bool" where
  "is_space c = (c \<in> set [CHR 0x09, CHR 0x0A, CHR 0x0B, CHR 0x0C, CHR 0x0D,
                            CHR 0x1C, CHR 0x1D, CHR 0x1E, CHR 0x1F, CHR 0x20])"

definition strip :: "string \<Rightarrow> string" where
  "strip s = rev (dropWhile is_space (rev (dropWhile is_space s)))"

section \<open>Pattern strategy (extractors/regex\_extractor.py)\<close>

text \<open>
  A compiled pattern is named by the line of \<open>regex_extractor.py\<close> that compiles it.
  The regular-expression library is outside the repository: \<open>pattern.search(text)\<close> is
  the parameter \<open>search\<close>, which returns \<open>None\<close> or a match object, and a match object
  is its method \<open>group\<close>. Every positive group index of the table names a group that
  takes part in each match of its pattern, so \<open>match.group(group)\<close> is a string.
\<close>

datatype pattern = Compiled nat

type_synonym match = "nat \<Rightarrow> string"

type_synonym engine = "pattern \<Rightarrow> string \<Rightarrow> match option"

text \<open>
  \<open>RegexExtractor._configure_patterns\<close>: per section the fields in the order of the
  dictionary literal, each with its list of (pattern, group) tuples. No tuple of the
  table has a third component, so \<open>transform_func\<close> is \<open>None\<close> throughout.
\<close>


fun configure_patterns :: "DocumentSection \<Rightarrow> (string \<times> (pattern \<times> nat) list) list" where
  "configure_patterns TRUST_REGISTRATION =
     [(''HMRC_unique_reference_number'', [(Compiled 34, 1), (Compiled 35, 1), (Compiled 36, 1)]),
      (''proof_of_registration_attached'', [(Compiled 39, 0), (Compiled 40, 0), (Compiled 41, 0)])]"
| "configure_patterns DONOR_DETAILS =
     [(''title'', [(Compiled 47, 1)]),
      (''surname'', [(Compiled 50, 1)]),
      (''forenames'', [(Compiled 53, 1)]),
      (''date_of_birth'', [(Compiled 56, 1), (Compiled 57, 1)]),
      (''national_insurance_number'', [(Compiled 60, 1), (Compiled 61, 1)]),
      (''permanent_residential_address'', [(Compiled 64, 1)]),
      (''postcode'', [(Compiled 67, 1)]),
      (''country_of_residence'', [(Compiled 70, 1)]),
      (''country_of_nationality'', [(Compiled 73, 1)]),
      (''deceased'', [(Compiled 76, 0), (Compiled 77, 0)])]"
| "configure_patterns TRUSTEE_DETAILS =
     [(''title'', [(Compiled 83, 1)]),
      (''surname'', [(Compiled 86, 1)]),
      (''forenames'', [(Compiled 89, 1)]),
      (''date_of_birth'', [(Compiled 92, 1), (Compiled 93, 1)]),
      (''national_insurance_number'', [(Compiled 96, 1), (Compiled 97, 1)]),
      (''permanent_residential_address'', [(Compiled 100, 1)]),
      (''postcode'', [(Compiled 103, 1)]),
      (''country'', [(Compiled 106, 1)]),
      (''telephone_number'', [(Compiled 109, 1)]),
      (''email_address'', [(Compiled 112, 1)]),
      (''existing_aj_bell_account'', [(Compiled 115, 0)]),
      (''existing_account_number'', [(Compiled 118, 1)]),
      (''born_in_uk'', [(Compiled 121, 0)]),
      (''solely_uk_citizen'', [(Compiled 124, 0)]),
      (''country_of_birth'', [(Compiled 127, 1)]),
      (''nationality'', [(Compiled 130, 1)]),
      (''id_number'', [(Compiled 133, 1)]),
      (''type_of_number'', [(Compiled 136, 1)]),
      (''passport_number'', [(Compiled 139, 1)]),
      (''primary_residence'', [(Compiled 142, 1)]),
      (''secondary_residence'', [(Compiled 145, 1)]),
      (''primary_citizenship'', [(Compiled 148, 1)]),
      (''secondary_citizenship'', [(Compiled 151, 1)])]"
| "configure_patterns BENEFICIARY_DETAILS =
     [(''title'', [(Compiled 157, 1), (Compiled 158, 0)]),
      (''surname'', [(Compiled 161, 1), (Compiled 162, 1)]),
      (''forenames'', [(Compiled 165, 1), (Compiled 166, 1)]),
      (''date_of_birth'', [(Compiled 169, 1), (Compiled 170, 1)]),
      (''national_insurance_number'', [(Compiled 173, 1), (Compiled 174, 1)]),
      (''permanent_residential_address'', [(Compiled 177, 1), (Compiled 178, 1)]),
      (''postcode'', [(Compiled 181, 1)]),
      (''country'', [(Compiled 184, 1)]),
      (''telephone_number'', [(Compiled 187, 1), (Compiled 188, 1)]),
      (''email_address'', [(Compiled 191, 1), (Compiled 192, 1)]),
      (''born_in_uk'', [(Compiled 195, 0)]),
      (''solely_uk_citizen'', [(Compiled 198, 0)]),
      (''country_of_birth'', [(Compiled 201, 1)]),
      (''nationality'', [(Compiled 204, 1)]),
      (''primary_residence'', [(Compiled 207, 1)]),
      (''secondary_residence'', [(Compiled 210, 1)]),
      (''primary_citizenship'', [(Compiled 213, 1)]),
      (''secondary_citizenship'', [(Compiled 216, 1)])]"
| "configure_patterns NOMINATED_BANK_ACCOUNT =
     [(''account_holder_name'', [(Compiled 222, 1), (Compiled 223, 1)]),
      (''account_number'', [(Compiled 226, 1), (Compiled 227, 1)]),
      (''sort_code'', [(Compiled 230, 1)])]"
| "configure_patterns SECURITY_INFORMATION =
     [(''username'', [(Compiled 236, 1), (Compiled 237, 1)]),
      (''mother_maiden_name'', [(Compiled 240, 1)]),
      (''first_school_name'', [(Compiled 243, 1)])]"
| "configure_patterns DATA_PRIVACY_STATEMENT =
     [(''identity_verification_consent'', [(Compiled 249, 0), (Compiled 250, 0)]),
      (''fraud_prevention_checks_consent'', [(Compiled 253, 0), (Compiled 254, 0)]),
      (''communication_preference_consent'', [(Compiled 257, 0), (Compiled 258, 0)]),
      (''trustee1_name'', [(Compiled 262, 1)]),
      (''trustee1_date'', [(Compiled 265, 1)]),
      (''trustee1_signature'', [(Compiled 268, 0)]),
      (''trustee2_name'', [(Compiled 272, 1)]),
      (''trustee2_date'', [(Compiled 275, 1)]),
      (''trustee2_signature'', [(Compiled 278, 0)])]"

text \<open>The inner loop of \<open>RegexExtractor.extract\<close>: the first pattern that matches decides.\<close>

fun first_match :: "engine \<Rightarrow> string \<Rightarrow> (pattern \<times> nat) list \<Rightarrow> val option" where
  "first_match search text [] = None"
| "first_match search text ((pat, grp) # rest) =
     (case search pat text of
        None \<Rightarrow> first_match search text rest
      | Some m \<Rightarrow> Some (if grp = 0 then VBool True else VStr (strip (m grp))))"

text \<open>The default of a field that no pattern matched.\<close>

definition default_value :: "string \<Rightarrow> val" where
  "default_value field =
     (if field \<in> set [''proof_of_registration_attached'', ''deceased'', ''born_in_uk'']
      then VBool False
      else if field \<in> set [''not_born_in_uk'', ''security_questions''] then VNull
      else VStr [])"

text \<open>The body of the outer loop for one field.\<close>

definition extract_field :: "engine \<Rightarrow> string \<Rightarrow> dict \<Rightarrow> string \<times> (pattern \<times> nat) list \<Rightarrow> dict" where
  "extract_field search text result item =
     (let field = fst item;
          result1 = (case first_match search text (snd item) of
                       None \<Rightarrow> result
                     | Some v \<Rightarrow> dict_set result field v)
      in if \<not> dict_has result1 field then dict_set result1 field (default_value field)
         else result1)"

definition RegexExtractor_extract :: "engine \<Rightarrow> DocumentSection \<Rightarrow> string \<Rightarrow> dict" where
  "RegexExtractor_extract search section text =
     foldl (extract_field search text) [] (configure_patterns section)"


section \<open>Properties of the pattern strategy\<close>

lemma dict_set_fresh: "k \<notin> fst ` set d \<Longrightarrow> dict_set d k v = d @ [(k, v)]"
  by (induction d) auto

lemma map_of_dict_set: "map_of (dict_set d k v) k' = (if k' = k then Some v else map_of d k')"
  by (induction d) auto

lemma dict_set_keys:
  "map fst (dict_set d k v) = (if k \<in> fst ` set d then map fst d else map fst d @ [k])"
proof (induction d)
  case Nil
  then show ?case by simp
next
  case (Cons item d)
  obtain k' v' where item: "item = (k', v')" by (cases item)
  show ?case
  proof (cases "k' = k")
    case True
    with item show ?thesis by simp
  next
    case False
    with item Cons show ?thesis by simp
  qed
qed

lemma dict_has_keys: "dict_has d k = (k \<in> fst ` set d)"
  by (simp add: dict_has_def map_of_eq_None_iff)

lemma extract_field_fresh:
  assumes "fst item \<notin> fst ` set result"
  shows "extract_field search text result item =
           result @ [(fst item, case first_match search text (snd item) of
                                  None \<Rightarrow> default_value (fst item) | Some v \<Rightarrow> v)]"
  using assms
  by (simp add: extract_field_def Let_def dict_has_keys dict_set_fresh split: option.split)

lemma foldl_extract_field:
  assumes "distinct (map fst result @ map fst table)"
  shows "foldl (extract_field search text) result table =
           result @ map (\<lambda>item. (fst item, case first_match search text (snd item) of
                                   None \<Rightarrow> default_value (fst item) | Some v \<Rightarrow> v)) table"
  using assms
proof (induction table arbitrary: result)
  case Nil
  then show ?case by simp
next
  case (Cons item table)
  from Cons.prems have fresh: "fst item \<notin> fst ` set result"
    by auto
  from Cons.prems have "distinct (map fst (extract_field search text result item) @ map fst table)"
    by (auto simp: extract_field_fresh [OF fresh])
  from Cons.IH [OF this] show ?case
    by (simp add: extract_field_fresh [OF fresh])
qed

lemma configure_patterns_distinct: "distinct (map fst (configure_patterns section))"
  by (cases "section") simp_all

lemma RegexExtractor_extract_eq:
  "RegexExtractor_extract search section text =
     map (\<lambda>item. (fst item, case first_match search text (snd item) of
                     None \<Rightarrow> default_value (fst item) | Some v \<Rightarrow> v))
         (configure_patterns section)"
proof -
  have "distinct (map fst ([] :: dict) @ map fst (configure_patterns section))"
    by (simp add: configure_patterns_distinct)
  from foldl_extract_field [OF this] show ?thesis
    by (simp add: RegexExtractor_extract_def)
qed

lemma RegexExtractor_extract_keys:
  "map fst (RegexExtractor_extract search section text) = map fst (configure_patterns section)"
  by (simp add: RegexExtractor_extract_eq comp_def)

lemma RegexExtractor_extract_lookup:
  assumes "item \<in> set (configure_patterns section)"
  shows "map_of (RegexExtractor_extract search section text) (fst item) =
           Some (case first_match search text (snd item) of
                   None \<Rightarrow> default_value (fst item) | Some v \<Rightarrow> v)"
proof -
  let ?f = "\<lambda>item. (fst item, case first_match search text (snd item) of
                   None \<Rightarrow> default_value (fst item) | Some v \<Rightarrow> v)"
  have d: "distinct (map fst (RegexExtractor_extract search section text))"
    by (simp only: RegexExtractor_extract_keys configure_patterns_distinct)
  from assms have "?f item \<in> ?f ` set (configure_patterns section)"
    by (rule imageI)
  then have m: "?f item \<in> set (RegexExtractor_extract search section text)"
    by (simp only: RegexExtractor_extract_eq set_map)
  from map_of_is_SomeI [OF d m] show ?thesis .
qed

lemma first_match_none:
  "(\<forall>pg \<in> set patterns. search (fst pg) text = None) \<Longrightarrow> first_match search text patterns = None"
proof (induction patterns)
  case Nil
  then show ?case by simp
next
  case (Cons pg patterns)
  then show ?case by (cases pg) simp
qed

lemma first_match_find:
  "find (\<lambda>pg. search (fst pg) text \<noteq> None) patterns = Some (pat, 0)
     \<Longrightarrow> first_match search text patterns = Some (VBool True)"
proof (induction patterns)
  case Nil
  then show ?case by simp
next
  case (Cons pg patterns)
  obtain p g where pg: "pg = (p, g)" by (cases pg)
  show ?case
  proof (cases "search p text")
    case None
    with Cons pg show ?thesis by simp
  next
    case (Some m)
    with Cons.prems pg have "g = 0" by simp
    with Some pg show ?thesis by simp
  qed
qed

lemma dropWhile_rev_prefix:
  assumes "t = [] \<or> \<not> P (hd t)"
  shows "dropWhile P (rev (dropWhile P (rev t))) = rev (dropWhile P (rev t))"
proof (cases "dropWhile P (rev t) = []")
  case True
  then show ?thesis by (simp only: rev.simps dropWhile.simps)
next
  case False
  have "rev t = takeWhile P (rev t) @ dropWhile P (rev t)" by simp
  then have "t = rev (dropWhile P (rev t)) @ rev (takeWhile P (rev t))"
    by (metis rev_append rev_rev_ident)
  with False have "hd (rev (dropWhile P (rev t))) = hd t"
    by (metis hd_append2 rev_is_Nil_conv)
  moreover from False have "t \<noteq> []" by auto
  ultimately have "\<not> P (hd (rev (dropWhile P (rev t))))"
    using assms by simp
  with False show ?thesis
    by (cases "rev (dropWhile P (rev t))") auto
qed

lemma strip_idem: "strip (strip s) = strip s"
proof -
  have "dropWhile is_space s = [] \<or> \<not> is_space (hd (dropWhile is_space s))"
    by (metis hd_dropWhile)
  then have "dropWhile is_space (strip s) = strip s"
    unfolding strip_def by (rule dropWhile_rev_prefix)
  then show ?thesis
    by (simp add: strip_def dropWhile_idem)
qed

lemma first_match_shape:
  "first_match search text patterns = Some v
     \<Longrightarrow> (\<exists>b. v = VBool b) \<or> (\<exists>s. v = VStr s \<and> strip s = s)"
proof (induction patterns)
  case Nil
  then show ?case by simp
next
  case (Cons pg patterns)
  obtain p g where pg: "pg = (p, g)" by (cases pg)
  show ?case
  proof (cases "search p text")
    case None
    with Cons pg show ?thesis by simp
  next
    case (Some m)
    with Cons.prems pg have "v = (if g = 0 then VBool True else VStr (strip (m g)))"
      by simp
    then show ?thesis by (auto simp: strip_idem)
  qed
qed

lemma strip_Nil: "strip [] = []"
  by (simp add: strip_def)

lemma default_value_cases:
  "default_value field = VBool False \<or> default_value field = VNull \<or> default_value field = VStr []"
  by (simp add: default_value_def)

lemma default_value_shape:
  "(\<exists>b. default_value field = VBool b) \<or> default_value field = VNull
     \<or> (\<exists>s. default_value field = VStr s \<and> strip s = s)"
  using default_value_cases [of field] strip_Nil by blast


lemma configure_patterns_no_placeholder:
  "item \<in> set (configure_patterns section)
     \<Longrightarrow> fst item \<noteq> ''not_born_in_uk'' \<and> fst item \<noteq> ''security_questions''"
  by (cases "section") auto

text \<open>
  Two behaviours of the regular-expression library, used to run the extractor on
  concrete texts. On the empty text and on the text \<open>trustee details\<close> no pattern of
  the table has a match. On the text \<open>Surname: Smith deceased\<close> the pattern of line 50
  (\<open>Surname[:\s]*([A-Za-z-]+)\<close>) matches with group 1 \<open>Smith\<close>, the pattern of line 77
  (\<open>deceased\<close>) matches, and no other pattern of the donor table does.
\<close>

definition no_match :: engine where
  "no_match pat text = None"

definition sample_search :: engine where
  "sample_search pat text =
     (if text = ''Surname: Smith deceased'' \<and> pat = Compiled 50
        then Some (\<lambda>g. if g = 0 then ''Surname: Smith'' else ''Smith'')
      else if text = ''Surname: Smith deceased'' \<and> pat = Compiled 77
        then Some (\<lambda>g. ''deceased'')
      else None)"

text \<open>
  C3 (as the code has it). For every input text, also an empty one, and every behaviour
  of the pattern search, \<open>RegexExtractor.extract\<close> returns a dictionary whose keys
  are exactly the configured fields of the section, in the order of the table. A field
  none of whose patterns matches is present with its default: \<open>False\<close> for the three
  fields \<open>proof_of_registration_attached\<close>, \<open>deceased\<close> and \<open>born_in_uk\<close>, and the
  empty string for every other configured field, the other boolean-presence fields
  included. No configured field is a nested-object placeholder, so the default
  \<open>None\<close> of the code is never used.
\<close>

theorem RegexExtractor_extract_defaults:
  "map fst (RegexExtractor_extract search section text) = map fst (configure_patterns section)
   \<and> (\<forall>item \<in> set (configure_patterns section).
        (\<forall>pg \<in> set (snd item). search (fst pg) text = None) \<longrightarrow>
        map_of (RegexExtractor_extract search section text) (fst item) =
          Some (if fst item \<in> set [''proof_of_registration_attached'', ''deceased'', ''born_in_uk'']
                then VBool False else VStr []))"
proof (intro conjI ballI impI)
  show "map fst (RegexExtractor_extract search section text) = map fst (configure_patterns section)"
    by (rule RegexExtractor_extract_keys)
next
  fix item
  assume item: "item \<in> set (configure_patterns section)"
    and none: "\<forall>pg \<in> set (snd item). search (fst pg) text = None"
  from none have "first_match search text (snd item) = None"
    by (rule first_match_none)
  with RegexExtractor_extract_lookup [OF item, of "search" "text"]
  have "map_of (RegexExtractor_extract search section text) (fst item) = Some (default_value (fst item))"
    by simp
  moreover from configure_patterns_no_placeholder [OF item]
  have "default_value (fst item) =
          (if fst item \<in> set [''proof_of_registration_attached'', ''deceased'', ''born_in_uk'']
           then VBool False else VStr [])"
    by (simp add: default_value_def)
  ultimately show "map_of (RegexExtractor_extract search section text) (fst item) =
          Some (if fst item \<in> set [''proof_of_registration_attached'', ''deceased'', ''born_in_uk'']
                then VBool False else VStr [])"
    by simp
qed

theorem RegexExtractor_extract_defaults_witness:
  "map fst (RegexExtractor_extract sample_search DONOR_DETAILS ''Surname: Smith deceased'')
     = [''title'', ''surname'', ''forenames'', ''date_of_birth'', ''national_insurance_number'',
        ''permanent_residential_address'', ''postcode'', ''country_of_residence'',
        ''country_of_nationality'', ''deceased'']
   \<and> sample_search (Compiled 47) ''Surname: Smith deceased'' = None
   \<and> map_of (RegexExtractor_extract sample_search DONOR_DETAILS ''Surname: Smith deceased'') ''title''
     = Some (VStr [])"
  using RegexExtractor_extract_defaults [of sample_search DONOR_DETAILS "''Surname: Smith deceased''"]
  by (simp add: sample_search_def)

text \<open>
  The claim as the specification states it fails: \<open>solely_uk_citizen\<close> of the trustee
  section is a boolean-presence field (its only pattern has group index zero), and on
  the empty text, where no pattern matches, it is the empty string and not \<open>False\<close>.
\<close>

theorem RegexExtractor_extract_defaults_counterexample:
  "(''solely_uk_citizen'', [(Compiled 124, 0)]) \<in> set (configure_patterns TRUSTEE_DETAILS)
   \<and> no_match (Compiled 124) [] = None
   \<and> map_of (RegexExtractor_extract no_match TRUSTEE_DETAILS []) ''solely_uk_citizen'' = Some (VStr [])
   \<and> VStr [] \<noteq> VBool False"
  by (simp add: RegexExtractor_extract_def extract_field_def no_match_def dict_has_def
      default_value_def)

text \<open>
  C10. For every input text, every value of the dictionary returned by
  \<open>RegexExtractor.extract\<close> is a boolean, \<open>None\<close> or a string that \<open>strip\<close> leaves
  unchanged, and a field whose first matching pattern has group index zero is exactly
  \<open>True\<close>.
\<close>

theorem RegexExtractor_extract_values:
  "(\<forall>kv \<in> set (RegexExtractor_extract search section text).
      (\<exists>b. snd kv = VBool b) \<or> snd kv = VNull \<or> (\<exists>s. snd kv = VStr s \<and> strip s = s))
   \<and> (\<forall>item \<in> set (configure_patterns section). \<forall>pat.
        find (\<lambda>pg. search (fst pg) text \<noteq> None) (snd item) = Some (pat, 0) \<longrightarrow>
        map_of (RegexExtractor_extract search section text) (fst item) = Some (VBool True))"
proof (intro conjI ballI allI impI)
  fix kv
  assume "kv \<in> set (RegexExtractor_extract search section text)"
  then obtain item where kv: "kv = (fst item, case first_match search text (snd item) of
                   None \<Rightarrow> default_value (fst item) | Some v \<Rightarrow> v)"
    by (auto simp: RegexExtractor_extract_eq)
  show "(\<exists>b. snd kv = VBool b) \<or> snd kv = VNull \<or> (\<exists>s. snd kv = VStr s \<and> strip s = s)"
  proof (cases "first_match search text (snd item)")
    case None
    with kv default_value_shape [of "fst item"] show ?thesis by simp
  next
    case (Some v)
    with kv first_match_shape [OF Some] show ?thesis by auto
  qed
next
  fix item pat
  assume item: "item \<in> set (configure_patterns section)"
    and "find (\<lambda>pg. search (fst pg) text \<noteq> None) (snd item) = Some (pat, 0)"
  then have "first_match search text (snd item) = Some (VBool True)"
    by (simp add: first_match_find)
  with RegexExtractor_extract_lookup [OF item, of "search" "text"]
  show "map_of (RegexExtractor_extract search section text) (fst item) = Some (VBool True)"
    by simp
qed

theorem RegexExtractor_extract_values_witness:
  "RegexExtractor_extract sample_search DONOR_DETAILS ''Surname: Smith deceased''
     = [(''title'', VStr []), (''surname'', VStr ''Smith''), (''forenames'', VStr []),
        (''date_of_birth'', VStr []), (''national_insurance_number'', VStr []),
        (''permanent_residential_address'', VStr []), (''postcode'', VStr []),
        (''country_of_residence'', VStr []), (''country_of_nationality'', VStr []),
        (''deceased'', VBool True)]
   \<and> strip ''Smith'' = ''Smith''
   \<and> find (\<lambda>pg. sample_search (fst pg) ''Surname: Smith deceased'' \<noteq> None)
        [(Compiled 76, 0), (Compiled 77, 0)] = Some (Compiled 77, 0)"
  using RegexExtractor_extract_values [of sample_search DONOR_DETAILS "''Surname: Smith deceased''"]
  by (simp add: RegexExtractor_extract_def extract_field_def sample_search_def dict_has_def
      default_value_def strip_def is_space_def)

section \<open>Model-backed strategy (extractors/llm\_extractor.py)\<close>

text \<open>
  Exceptions are values. \<open>ProviderError\<close> stands for whatever the chain of prompt,
  language model and JSON parser raises (provider failure, timeout, malformed response);
  the other three are the Python exceptions that the code of the repository can raise
  on a value of the wrong shape.
\<close>

datatype error = ProviderError | AttributeError | TypeError | ValueError

text \<open>
  The chain \<open>self.prompt | self.llm | self.parser\<close> is outside the repository. It is the
  parameter \<open>chain\<close>: for the section whose prompt it was built with and the text, it
  raises or returns the parsed JSON value. Numbers with a fraction are left out of \<open>val\<close>.
\<close>

type_synonym chain = "DocumentSection \<Rightarrow> string \<Rightarrow> error + val"

text \<open>\<open>x == True\<close> on a looked-up value: \<open>True\<close> and the integer 1 are equal to \<open>True\<close>.\<close>

definition eq_True :: "val option \<Rightarrow> bool" where
  "eq_True v = (v = Some (VBool True) \<or> v = Some (VInt 1))"

text \<open>
  The loop \<open>for field in fields: if field in result: details[field] = result.pop(field)\<close>,
  returning the pair of the two dictionaries it updates.
\<close>

fun pop_fields :: "string list \<Rightarrow> dict \<Rightarrow> dict \<Rightarrow> dict \<times> dict" where
  "pop_fields [] result details = (result, details)"
| "pop_fields (field # fields) result details =
     (case map_of result field of
        None \<Rightarrow> pop_fields fields result details
      | Some v \<Rightarrow> pop_fields fields (dict_pop result field) (dict_set details field v))"

text \<open>\<open>d.update(other)\<close>\<close>

fun dict_update :: "dict \<Rightarrow> dict \<Rightarrow> dict" where
  "dict_update d [] = d"
| "dict_update d (item # other) = dict_update (dict_set d (fst item) (snd item)) other"

text \<open>The list \<open>non_uk_fields\<close> of \<open>llm_extractor.py\<close> and \<open>trustee_extractor.py\<close>.\<close>

definition trustee_non_uk_fields :: "string list" where
  "trustee_non_uk_fields =
     [''country_of_birth'', ''nationality'', ''id_number'', ''type_of_number'',
      ''passport_number'', ''primary_residence'', ''secondary_residence'',
      ''primary_citizenship'', ''secondary_citizenship'']"

text \<open>
  \<open>LLMExtractor._process_non_uk_details_structure\<close> on a dictionary; it is only called
  for the trustee section.
\<close>

definition process_non_uk_details_structure :: "dict \<Rightarrow> dict" where
  "process_non_uk_details_structure result =
     (if eq_True (map_of result ''solely_uk_citizen'') then dict_set result ''not_uk_details'' VNull
      else
        (let popped = pop_fields trustee_non_uk_fields result [];
             result1 = fst popped; non_uk_details = snd popped
         in if non_uk_details \<noteq> [] then
              (case map_of result1 ''not_uk_details'' of
                 Some (VDict nested) \<Rightarrow>
                   dict_set result1 ''not_uk_details'' (VDict (dict_update nested non_uk_details))
               | _ \<Rightarrow> dict_set result1 ''not_uk_details'' (VDict non_uk_details))
            else if \<not> get_truthy result1 ''not_uk_details''
              then dict_set result1 ''not_uk_details'' VNull
            else result1))"

text \<open>
  \<open>LLMExtractor.extract\<close>. Everything after \<open>try:\<close> is inside the \<open>try\<close> block: an
  exception of the chain, and the \<open>AttributeError\<close> of \<open>result.get\<close> on a trustee result
  that is not a dictionary, both reach the \<open>except\<close> branch, which returns
  \<open>RegexExtractor(self.document_section).extract(text)\<close>. The fallback raises nothing,
  so the function returns a value in every case.
\<close>

definition LLMExtractor_extract :: "engine \<Rightarrow> chain \<Rightarrow> DocumentSection \<Rightarrow> string \<Rightarrow> val" where
  "LLMExtractor_extract search chain section text =
     (case chain section text of
        Inl e \<Rightarrow> VDict (RegexExtractor_extract search section text)
      | Inr result \<Rightarrow>
          if section = TRUSTEE_DETAILS then
            (case result of
               VDict d \<Rightarrow> VDict (process_non_uk_details_structure d)
             | _ \<Rightarrow> VDict (RegexExtractor_extract search section text))
          else result)"

text \<open>A provider that always raises.\<close>

definition failing_chain :: chain where
  "failing_chain section text = Inl ProviderError"

text \<open>
  C2. For every document section and every input text, if the call of the model
  provider raises, then \<open>LLMExtractor.extract\<close> returns exactly the dictionary that
  the pattern strategy of the same section returns on the same text. The model function
  returns a value and no error, so no exception reaches the caller.
\<close>

theorem LLMExtractor_extract_fallback:
  assumes "chain section text = Inl e"
  shows "LLMExtractor_extract search chain section text
           = VDict (RegexExtractor_extract search section text)"
  using assms by (simp add: LLMExtractor_extract_def)

theorem LLMExtractor_extract_fallback_witness:
  "failing_chain TRUST_REGISTRATION [] = Inl ProviderError
   \<and> LLMExtractor_extract no_match failing_chain TRUST_REGISTRATION []
       = VDict (RegexExtractor_extract no_match TRUST_REGISTRATION [])
   \<and> RegexExtractor_extract no_match TRUST_REGISTRATION []
       = [(''HMRC_unique_reference_number'', VStr []), (''proof_of_registration_attached'', VBool False)]"
  using LLMExtractor_extract_fallback [of failing_chain TRUST_REGISTRATION "[]" ProviderError no_match]
  by (simp add: failing_chain_def RegexExtractor_extract_def extract_field_def no_match_def
      dict_has_def default_value_def)

section \<open>Normalisers shared by the section extractors\<close>

text \<open>Running a step on the result of the previous one stops at the first exception.\<close>

definition and_then :: "error + 'a \<Rightarrow> ('a \<Rightarrow> error + 'b) \<Rightarrow> error + 'b" where
  "and_then r f = (case r of Inl e \<Rightarrow> Inl e | Inr x \<Rightarrow> f x)"

text \<open>\<open>s.split(c)\<close> for a one-character separator.\<close>

fun split_on :: "char \<Rightarrow> string \<Rightarrow> string list" where
  "split_on c [] = [[]]"
| "split_on c (x # xs) =
     (if x = c then [] # split_on c xs
      else (case split_on c xs of
              [] \<Rightarrow> [[x]]
            | part # parts \<Rightarrow> (x # part) # parts))"

definition is_digit :: "char \<Rightarrow> bool" where
  "is_digit c = (c \<in> set ''0123456789'')"

definition is_upper :: "char \<Rightarrow> bool" where
  "is_upper c = (c \<in> set ''ABCDEFGHIJKLMNOPQRSTUVWXYZ'')"

definition digit_value :: "char \<Rightarrow> int" where
  "digit_value c =
     (case map_of (zip ''0123456789'' [0, 1, 2, 3, 4, 5, 6, 7, 8, 9]) c of
        None \<Rightarrow> 0 | Some n \<Rightarrow> n)"

text \<open>
  \<open>int(s)\<close> on a string: surrounding whitespace is dropped, one sign is allowed, and
  at least one digit must follow; anything else raises \<open>ValueError\<close>, here \<open>None\<close>.
  Underscores between digits, which \<open>int\<close> also accepts, need three characters and are
  left out: the code calls \<open>int\<close> on strings of length two only.
\<close>

definition int_of_str :: "string \<Rightarrow> int option" where
  "int_of_str s =
     (let t = strip s;
          negative = (t \<noteq> [] \<and> hd t = CHR ''-'');
          digits = (if t \<noteq> [] \<and> (hd t = CHR ''-'' \<or> hd t = CHR ''+'') then tl t else t)
      in if digits \<noteq> [] \<and> list_all is_digit digits
         then Some ((if negative then - 1 else 1) * foldl (\<lambda>n c. 10 * n + digit_value c) 0 digits)
         else None)"

text \<open>
  \<open>_clean_date_of_birth\<close>, word for word the same in \<open>DonorExtractor\<close>,
  \<open>TrusteeExtractor\<close> and \<open>BeneficiaryExtractor\<close>. \<open>re.sub(r'[-.]', '/', dob)\<close> raises
  \<open>TypeError\<close> on a value that is not a string, and \<open>int(year)\<close> raises \<open>ValueError\<close>
  on a year of two characters that is not a number.
\<close>

definition clean_date_of_birth :: "dict \<Rightarrow> error + dict" where
  "clean_date_of_birth result =
     (if \<not> get_truthy result ''date_of_birth'' then Inr result
      else case map_of result ''date_of_birth'' of
        Some (VStr dob) \<Rightarrow>
          (let dob1 = map (\<lambda>c. if c = CHR ''-'' \<or> c = CHR ''.'' then CHR ''/'' else c) dob
           in case split_on CHR ''/'' dob1 of
                [day, month, year] \<Rightarrow>
                  if length year = 2 then
                    (case int_of_str year of
                       None \<Rightarrow> Inl ValueError
                     | Some year_num \<Rightarrow>
                         Inr (dict_set result ''date_of_birth''
                               (VStr (day @ ''/'' @ month @ ''/'' @
                                  (if year_num \<ge> 50 then ''19'' @ year else ''20'' @ year)))))
                  else Inr (dict_set result ''date_of_birth'' (VStr (day @ ''/'' @ month @ ''/'' @ year)))
              | _ \<Rightarrow> Inr result)
      | _ \<Rightarrow> Inl TypeError)"

text \<open>
  The two \<open>re.match\<close> tests of the identifier: \<open>^[A-Z]{2}\d{6}[A-Z]$\<close> and
  \<open>^[A-Z]{2}\d{6}$\<close>, where \<open>$\<close> also matches before a final newline.
\<close>

definition before_final_newline :: "string \<Rightarrow> string" where
  "before_final_newline s = (if s \<noteq> [] \<and> last s = CHR 0x0A then butlast s else s)"

definition ni_with_letter :: "string \<Rightarrow> bool" where
  "ni_with_letter s =
     (let t = before_final_newline s
      in length t = 9 \<and> list_all is_upper (take 2 t) \<and> list_all is_digit (take 6 (drop 2 t))
         \<and> list_all is_upper (drop 8 t))"

definition ni_without_letter :: "string \<Rightarrow> bool" where
  "ni_without_letter s =
     (let t = before_final_newline s
      in length t = 8 \<and> list_all is_upper (take 2 t) \<and> list_all is_digit (drop 2 t))"

text \<open>
  The part shared by the three \<open>_clean_national_insurance_number\<close>:
  \<open>ni_number.replace(" ", "").upper()\<close>, then \<open>re.sub(r'[-\s]', '', ni_number)\<close> unless
  one of the two patterns matches.
\<close>

definition normalise_ni :: "string \<Rightarrow> string" where
  "normalise_ni ni_number =
     (let ni = upper (filter (\<lambda>c. c \<noteq> CHR '' '') ni_number)
      in if ni_with_letter ni then ni
         else if ni_without_letter ni then ni
         else filter (\<lambda>c. c \<noteq> CHR ''-'' \<and> \<not> is_space c) ni)"

text \<open>
  \<open>_clean_national_insurance_number\<close> of \<open>DonorExtractor\<close> and \<open>TrusteeExtractor\<close>
  (the same text). \<open>replace\<close> on a value that is not a string raises \<open>AttributeError\<close>.
\<close>

definition clean_national_insurance_number :: "dict \<Rightarrow> error + dict" where
  "clean_national_insurance_number result =
     (if \<not> get_truthy result ''national_insurance_number'' then Inr result
      else case map_of result ''national_insurance_number'' of
        Some (VStr ni_number) \<Rightarrow>
          Inr (dict_set result ''national_insurance_number'' (VStr (normalise_ni ni_number)))
      | _ \<Rightarrow> Inl AttributeError)"

text \<open>
  \<open>BeneficiaryExtractor._clean_national_insurance_number\<close>: after the same first test,
  a value that is empty after \<open>strip\<close> becomes \<open>None\<close>.
\<close>

definition Beneficiary_clean_national_insurance_number :: "dict \<Rightarrow> error + dict" where
  "Beneficiary_clean_national_insurance_number result =
     (if \<not> get_truthy result ''national_insurance_number'' then Inr result
      else case map_of result ''national_insurance_number'' of
        Some (VStr ni_number) \<Rightarrow>
          if ni_number = [] \<or> strip ni_number = []
          then Inr (dict_set result ''national_insurance_number'' VNull)
          else Inr (dict_set result ''national_insurance_number'' (VStr (normalise_ni ni_number)))
      | _ \<Rightarrow> Inl AttributeError)"

text \<open>
  \<open>_clean_address_fields\<close>, the same in the three extractors. \<open>strip\<close> on a value that
  is not a string raises \<open>AttributeError\<close>, \<open>endswith\<close> with one raises \<open>TypeError\<close>.
\<close>

definition clean_postcode :: "dict \<Rightarrow> error + dict" where
  "clean_postcode result =
     (if get_truthy result ''postcode'' then
        (case map_of result ''postcode'' of
           Some (VStr postcode) \<Rightarrow> Inr (dict_set result ''postcode'' (VStr (upper (strip postcode))))
         | _ \<Rightarrow> Inl AttributeError)
      else Inr result)"

definition clean_address :: "dict \<Rightarrow> error + dict" where
  "clean_address result =
     (if get_truthy result ''permanent_residential_address'' then
        (case map_of result ''permanent_residential_address'' of
           Some (VStr raw) \<Rightarrow>
             (let address = strip raw in
              if get_truthy result ''postcode'' then
                (case map_of result ''postcode'' of
                   Some (VStr postcode) \<Rightarrow>
                     Inr (dict_set result ''permanent_residential_address''
                           (VStr (if suffix postcode address
                                  then strip (take (length address - length postcode) address)
                                  else address)))
                 | _ \<Rightarrow> Inl TypeError)
              else Inr (dict_set result ''permanent_residential_address'' (VStr address)))
         | _ \<Rightarrow> Inl AttributeError)
      else Inr result)"

definition clean_address_fields :: "dict \<Rightarrow> error + dict" where
  "clean_address_fields result = and_then (clean_postcode result) clean_address"

text \<open>
  \<open>_clean_boolean_fields\<close>: the loop over the boolean fields of the class, with the list
  of tokens that the class compares with.
\<close>

fun clean_boolean_fields :: "string list \<Rightarrow> string list \<Rightarrow> dict \<Rightarrow> dict" where
  "clean_boolean_fields tokens [] result = result"
| "clean_boolean_fields tokens (field # fields) result =
     clean_boolean_fields tokens fields
       (case map_of result field of
          Some (VStr s) \<Rightarrow> dict_set result field (VBool (lower s \<in> set tokens))
        | _ \<Rightarrow> result)"

text \<open>
  The token list of \<open>trustee_extractor.py\<close> and \<open>data_privacy_statement_extractor.py\<close>;
  its fourth token is the check mark U+2713, the bytes E2 9C 93.
\<close>

definition truthy_tokens :: "string list" where
  "truthy_tokens =
     [''yes'', ''true'', ''y'', [CHR 0xE2, CHR 0x9C, CHR 0x93], ''x'', ''checked'', ''ticked'']"

text \<open>
  The token list of \<open>beneficiary_extractor.py\<close>; its fourth token is the three
  characters U+00E2 U+0153 U+201C, the bytes C3 A2 C5 93 E2 80 9C.
\<close>

definition Beneficiary_truthy_tokens :: "string list" where
  "Beneficiary_truthy_tokens =
     [''yes'', ''true'', ''y'',
      [CHR 0xC3, CHR 0xA2, CHR 0xC5, CHR 0x93, CHR 0xE2, CHR 0x80, CHR 0x9C],
      ''x'', ''checked'', ''ticked'']"

definition Trustee_clean_boolean_fields :: "dict \<Rightarrow> dict" where
  "Trustee_clean_boolean_fields result =
     clean_boolean_fields truthy_tokens
       [''existing_aj_bell_account'', ''born_in_uk'', ''solely_uk_citizen''] result"

definition Beneficiary_clean_boolean_fields :: "dict \<Rightarrow> dict" where
  "Beneficiary_clean_boolean_fields result =
     clean_boolean_fields Beneficiary_truthy_tokens [''born_in_uk''] result"

definition DataPrivacy_clean_boolean_fields :: "dict \<Rightarrow> dict" where
  "DataPrivacy_clean_boolean_fields result =
     clean_boolean_fields truthy_tokens
       [''identity_verification_consent'', ''fraud_prevention_checks_consent'',
        ''communication_preference_consent''] result"

text \<open>
  \<open>_process_non_uk_details\<close> of \<open>TrusteeExtractor\<close> and of \<open>BeneficiaryExtractor\<close>: the
  two methods differ in the governing flag, the nested key and the list of fields.
\<close>

definition process_non_uk :: "string \<Rightarrow> string \<Rightarrow> string list \<Rightarrow> dict \<Rightarrow> dict" where
  "process_non_uk flag nested_key fields result =
     (if eq_True (map_of result flag) then dict_set result nested_key VNull
      else
        (let popped = pop_fields fields result [];
             result1 = fst popped; non_uk_details = snd popped
         in case map_of result1 nested_key of
              Some (VDict nested) \<Rightarrow>
                dict_set result1 nested_key (VDict (dict_update nested non_uk_details))
            | _ \<Rightarrow>
                if non_uk_details \<noteq> [] then dict_set result1 nested_key (VDict non_uk_details)
                else dict_set result1 nested_key VNull))"

definition Trustee_process_non_uk_details :: "dict \<Rightarrow> dict" where
  "Trustee_process_non_uk_details result =
     process_non_uk ''solely_uk_citizen'' ''not_uk_details'' trustee_non_uk_fields result"

definition beneficiary_non_uk_fields :: "string list" where
  "beneficiary_non_uk_fields =
     [''country_of_birth'', ''nationality'', ''id_number'', ''type_of_number'',
      ''passport_number'', ''primary_residence'', ''secondary_residence'',
      ''country_of_citizenship'', ''second_country_of_citizenship'']"

definition Beneficiary_process_non_uk_details :: "dict \<Rightarrow> dict" where
  "Beneficiary_process_non_uk_details result =
     process_non_uk ''born_in_uk'' ''not_born_in_uk'' beneficiary_non_uk_fields result"


section \<open>Donor details (extractors/donor\_extractor.py)\<close>

definition deceased_indicators :: "string list" where
  "deceased_indicators =
     [''has passed away'', ''deceased donor'', ''leave the residential address blank'',
      ''tick here if the donor has passed away'']"

text \<open>
  The checkbox glyphs of the source: U+2611, U+2612, the check mark in brackets and in
  parentheses, the check mark U+2713 and the cross U+00D7.
\<close>

definition checkbox_indicators :: "string list" where
  "checkbox_indicators =
     [[CHR 0xE2, CHR 0x98, CHR 0x91], [CHR 0xE2, CHR 0x98, CHR 0x92],
      ''['' @ [CHR 0xE2, CHR 0x9C, CHR 0x93] @ '']'', ''('' @ [CHR 0xE2, CHR 0x9C, CHR 0x93] @ '')'',
      [CHR 0xE2, CHR 0x9C, CHR 0x93], [CHR 0xC3, CHR 0x97]]"

text \<open>
  \<open>_infer_deceased_status\<close>. The second pair of loops tests whether the text contains
  the literal string made of a glyph, the two characters \<open>.*\<close> and an indicator (or the
  other way round).
\<close>

definition infer_deceased_status :: "dict \<Rightarrow> string \<Rightarrow> dict" where
  "infer_deceased_status result text =
     (let result1 = (if \<not> dict_has result ''deceased'' then dict_set result ''deceased'' (VBool False)
                     else result);
          result2 = (if list_ex (\<lambda>indicator. contains indicator (lower text)) deceased_indicators
                     then dict_set result1 ''deceased'' (VBool True) else result1)
      in if list_ex (\<lambda>deceased_indicator.
               list_ex (\<lambda>checkbox.
                  contains (checkbox @ ''.*'' @ deceased_indicator) text
                  \<or> contains (deceased_indicator @ ''.*'' @ checkbox) text) checkbox_indicators)
             deceased_indicators
         then dict_set result2 ''deceased'' (VBool True) else result2)"

text \<open>
  \<open>DonorExtractor.extract\<close>. The post-processing runs outside of any \<open>try\<close>; on a
  result that is not a dictionary the first \<open>result.get\<close> raises \<open>AttributeError\<close>.
\<close>

definition DonorExtractor_extract :: "engine \<Rightarrow> chain \<Rightarrow> string \<Rightarrow> error + val" where
  "DonorExtractor_extract search chain text =
     (case LLMExtractor_extract search chain DONOR_DETAILS text of
        VDict result \<Rightarrow>
          and_then (clean_date_of_birth result) (\<lambda>r1.
          and_then (clean_national_insurance_number r1) (\<lambda>r2.
          and_then (clean_address_fields r2) (\<lambda>r3.
          Inr (VDict (infer_deceased_status r3 text)))))
      | _ \<Rightarrow> Inl AttributeError)"

section \<open>Trustee and beneficiary details\<close>

definition TrusteeExtractor_extract :: "engine \<Rightarrow> chain \<Rightarrow> string \<Rightarrow> error + val" where
  "TrusteeExtractor_extract search chain text =
     (case LLMExtractor_extract search chain TRUSTEE_DETAILS text of
        VDict result \<Rightarrow>
          and_then (clean_date_of_birth result) (\<lambda>r1.
          and_then (clean_national_insurance_number r1) (\<lambda>r2.
          and_then (clean_address_fields r2) (\<lambda>r3.
          Inr (VDict (Trustee_process_non_uk_details (Trustee_clean_boolean_fields r3))))))
      | _ \<Rightarrow> Inl AttributeError)"

definition BeneficiaryExtractor_extract :: "engine \<Rightarrow> chain \<Rightarrow> string \<Rightarrow> error + val" where
  "BeneficiaryExtractor_extract search chain text =
     (case LLMExtractor_extract search chain BENEFICIARY_DETAILS text of
        VDict result \<Rightarrow>
          and_then (clean_date_of_birth result) (\<lambda>r1.
          and_then (Beneficiary_clean_national_insurance_number r1) (\<lambda>r2.
          and_then (clean_address_fields r2) (\<lambda>r3.
          Inr (VDict (Beneficiary_process_non_uk_details (Beneficiary_clean_boolean_fields r3))))))
      | _ \<Rightarrow> Inl AttributeError)"

section \<open>Trust registration, bank account and security information\<close>

definition TrustExtractor_extract :: "engine \<Rightarrow> chain \<Rightarrow> string \<Rightarrow> error + val" where
  "TrustExtractor_extract search chain text =
     Inr (LLMExtractor_extract search chain TRUST_REGISTRATION text)"

text \<open>\<open>re.sub(r'[^0-9]', '', s)\<close> keeps the digits; on a non-string it raises \<open>TypeError\<close>.\<close>

definition clean_account_number :: "dict \<Rightarrow> error + dict" where
  "clean_account_number result =
     (if \<not> get_truthy result ''account_number'' then Inr result
      else case map_of result ''account_number'' of
        Some (VStr account_number) \<Rightarrow>
          Inr (dict_set result ''account_number'' (VStr (filter is_digit account_number)))
      | _ \<Rightarrow> Inl TypeError)"

definition clean_sort_code :: "dict \<Rightarrow> error + dict" where
  "clean_sort_code result =
     (if \<not> get_truthy result ''sort_code'' then Inr result
      else case map_of result ''sort_code'' of
        Some (VStr sort_code) \<Rightarrow>
          (let digits = filter is_digit sort_code
           in if length digits = 6
              then Inr (dict_set result ''sort_code''
                     (VStr (take 2 digits @ ''-'' @ take 2 (drop 2 digits) @ ''-'' @ drop 4 digits)))
              else Inr (dict_set result ''sort_code'' (VStr digits)))
      | _ \<Rightarrow> Inl TypeError)"

definition NominatedBankAccountExtractor_extract :: "engine \<Rightarrow> chain \<Rightarrow> string \<Rightarrow> error + val" where
  "NominatedBankAccountExtractor_extract search chain text =
     (case LLMExtractor_extract search chain NOMINATED_BANK_ACCOUNT text of
        VDict result \<Rightarrow>
          and_then (clean_account_number result) (\<lambda>r1.
          and_then (clean_sort_code r1) (\<lambda>r2. Inr (VDict r2)))
      | _ \<Rightarrow> Inl AttributeError)"

definition is_dict :: "val option \<Rightarrow> bool" where
  "is_dict v = (case v of Some (VDict d) \<Rightarrow> True | _ \<Rightarrow> False)"

definition process_security_questions :: "dict \<Rightarrow> dict" where
  "process_security_questions result =
     (if \<not> get_truthy result ''security_questions'' \<or> \<not> is_dict (map_of result ''security_questions'')
      then (let popped = pop_fields [''mother_maiden_name'', ''first_school_name''] result [];
                result1 = fst popped; security_questions = snd popped
            in if security_questions \<noteq> []
               then dict_set result1 ''security_questions'' (VDict security_questions)
               else result1)
      else result)"

definition SecurityInformationExtractor_extract :: "engine \<Rightarrow> chain \<Rightarrow> string \<Rightarrow> error + val" where
  "SecurityInformationExtractor_extract search chain text =
     (case LLMExtractor_extract search chain SECURITY_INFORMATION text of
        VDict result \<Rightarrow> Inr (VDict (process_security_questions result))
      | _ \<Rightarrow> Inl AttributeError)"


section \<open>Data privacy statement (extractors/data\_privacy\_statement\_extractor.py)\<close>

definition is_lower :: "char \<Rightarrow> bool" where
  "is_lower c = (c \<in> set ''abcdefghijklmnopqrstuvwxyz'')"

text \<open>The class \<open>\w\<close> in the ASCII range.\<close>

definition is_word :: "char \<Rightarrow> bool" where
  "is_word c = (is_lower c \<or> is_upper c \<or> is_digit c \<or> c = CHR ''_'')"

text \<open>
  \<open>re.match(r'trustee(\d+)_(\w+)', key)\<close>: the pair of group 1 and group 2, or \<open>None\<close>.
  The digits are followed by an underscore, so group 1 is the whole run of digits after
  \<open>trustee\<close>; group 2 is the longest run of word characters after the underscore.
\<close>

definition match_trustee_key :: "string \<Rightarrow> (string \<times> string) option" where
  "match_trustee_key key =
     (if prefix ''trustee'' key then
        (let rest = drop 7 key;
             trustee_num = takeWhile is_digit rest;
             after = dropWhile is_digit rest
         in if trustee_num \<noteq> [] \<and> after \<noteq> [] \<and> hd after = CHR ''_''
               \<and> takeWhile is_word (tl after) \<noteq> []
            then Some (trustee_num, takeWhile is_word (tl after))
            else None)
      else None)"

text \<open>
  \<open>trustee_fields\<close> is a dictionary of dictionaries, keyed by the digit string of the
  trustee. One step of the first loop, for a key of the snapshot \<open>list(result.keys())\<close>.
\<close>

definition set_trustee_field :: "(string \<times> dict) list \<Rightarrow> string \<Rightarrow> string \<Rightarrow> val \<Rightarrow> (string \<times> dict) list" where
  "set_trustee_field trustee_fields trustee_num field_name v =
     map (\<lambda>entry. if fst entry = trustee_num
                    then (fst entry, dict_set (snd entry) field_name v) else entry) trustee_fields"

fun collect_trustee_fields :: "string list \<Rightarrow> dict \<Rightarrow> (string \<times> dict) list
    \<Rightarrow> dict \<times> (string \<times> dict) list" where
  "collect_trustee_fields [] result trustee_fields = (result, trustee_fields)"
| "collect_trustee_fields (key # keys) result trustee_fields =
     (case match_trustee_key key of
        None \<Rightarrow> collect_trustee_fields keys result trustee_fields
      | Some groups \<Rightarrow>
          (let trustee_num = fst groups; field_name = snd groups;
               trustee_fields1 = (if map_of trustee_fields trustee_num = None
                                  then trustee_fields @ [(trustee_num, [])] else trustee_fields);
               v = (case map_of result key of None \<Rightarrow> VNull | Some x \<Rightarrow> x);
               result1 = dict_pop result key
           in collect_trustee_fields keys result1
                (if truthy v \<or> field_name = ''signature''
                 then set_trustee_field trustee_fields1 trustee_num field_name v
                 else trustee_fields1)))"

text \<open>
  \<open>re.search(r'(\d{1,2})[/.-](\d{1,2})[/.-](\d{2,4})', date)\<close>: a run of one or two
  digits, a separator, again one or two digits and a separator, then two to four digits
  taken greedily; the leftmost position where this fits.
\<close>

definition is_date_sep :: "char \<Rightarrow> bool" where
  "is_date_sep c = (c = CHR ''/'' \<or> c = CHR ''.'' \<or> c = CHR ''-'')"

definition match_date_here :: "string \<Rightarrow> (string \<times> string \<times> string) option" where
  "match_date_here s =
     (let day = takeWhile is_digit s; r1 = dropWhile is_digit s
      in if (length day = 1 \<or> length day = 2) \<and> r1 \<noteq> [] \<and> is_date_sep (hd r1) then
           (let month = takeWhile is_digit (tl r1); r2 = dropWhile is_digit (tl r1)
            in if (length month = 1 \<or> length month = 2) \<and> r2 \<noteq> [] \<and> is_date_sep (hd r2) then
                 (let run = takeWhile is_digit (tl r2)
                  in if length run \<ge> 2 then Some (day, month, take 4 run) else None)
               else None)
         else None)"

fun search_date :: "string \<Rightarrow> (string \<times> string \<times> string) option" where
  "search_date [] = None"
| "search_date (c # cs) =
     (case match_date_here (c # cs) of
        Some groups \<Rightarrow> Some groups
      | None \<Rightarrow> search_date cs)"

text \<open>\<open>s.zfill(2)\<close> on a string of digits.\<close>

definition zfill2 :: "string \<Rightarrow> string" where
  "zfill2 s = replicate (2 - length s) CHR ''0'' @ s"

text \<open>The date clean-up inside the second loop.\<close>

definition clean_signature_date :: "val \<Rightarrow> error + val" where
  "clean_signature_date date =
     (if truthy date then
        (case date of
           VStr s \<Rightarrow>
             (case search_date s of
                None \<Rightarrow> Inr date
              | Some (day, month, year) \<Rightarrow>
                  if length year = 2 then
                    (case int_of_str year of
                       None \<Rightarrow> Inl ValueError
                     | Some n \<Rightarrow>
                         Inr (VStr (zfill2 day @ ''/'' @ zfill2 month @ ''/'' @
                                (if n < 50 then ''20'' @ year else ''19'' @ year))))
                  else Inr (VStr (zfill2 day @ ''/'' @ zfill2 month @ ''/'' @ year)))
         | _ \<Rightarrow> Inl TypeError)
      else Inr date)"

definition get_or_None :: "dict \<Rightarrow> string \<Rightarrow> val" where
  "get_or_None d k = (case map_of d k of None \<Rightarrow> VNull | Some v \<Rightarrow> v)"

text \<open>
  The body of the second loop for the fields of one trustee: \<open>None\<close> when the trustee
  has neither a name nor a signature, else the list entry.
\<close>

definition build_trustee :: "dict \<Rightarrow> error + val option" where
  "build_trustee fields =
     (if get_truthy fields ''name'' \<or> get_truthy fields ''signature'' then
        and_then (clean_signature_date (get_or_None fields ''date'')) (\<lambda>date.
          Inr (Some (VDict [(''name'', get_or_None fields ''name''),
                            (''date'', date),
                            (''signature'', if get_truthy fields ''signature''
                                            then VStr ''Present'' else VNull)])))
      else Inr None)"

text \<open>
  \<open>result["trustee_signatures"].append(trustee)\<close>: an \<open>AttributeError\<close> when the value
  under the key is not a list.
\<close>

definition append_signature :: "dict \<Rightarrow> val \<Rightarrow> error + dict" where
  "append_signature result trustee =
     (case map_of result ''trustee_signatures'' of
        Some (VList signatures) \<Rightarrow> Inr (dict_set result ''trustee_signatures'' (VList (signatures @ [trustee])))
      | _ \<Rightarrow> Inl AttributeError)"

text \<open>
  The second loop, over \<open>sorted(trustee_fields.keys())\<close>. The keys are strings, and
  \<open>sorted\<close> compares strings character by character.
\<close>

fun append_trustees :: "(string \<times> dict) list \<Rightarrow> string list \<Rightarrow> dict \<Rightarrow> error + dict" where
  "append_trustees trustee_fields [] result = Inr result"
| "append_trustees trustee_fields (trustee_num # nums) result =
     and_then (build_trustee (case map_of trustee_fields trustee_num of None \<Rightarrow> [] | Some fields \<Rightarrow> fields))
       (\<lambda>built. case built of
           None \<Rightarrow> append_trustees trustee_fields nums result
         | Some trustee \<Rightarrow>
             and_then (append_signature result trustee) (append_trustees trustee_fields nums))"

definition process_trustee_signatures_from_flat_structure :: "dict \<Rightarrow> error + dict" where
  "process_trustee_signatures_from_flat_structure result =
     (let result1 = (if \<not> dict_has result ''trustee_signatures'' \<or> \<not> get_truthy result ''trustee_signatures''
                     then dict_set result ''trustee_signatures'' (VList []) else result);
          collected = collect_trustee_fields (map fst result1) result1 [];
          result2 = fst collected; trustee_fields = snd collected
      in append_trustees trustee_fields (sort (map fst trustee_fields)) result2)"

text \<open>
  \<open>DataPrivacyStatementExtractor.extract\<close>. On a result that is not a dictionary the
  first statement of the post-processing raises \<open>TypeError\<close>.
\<close>

definition DataPrivacyStatementExtractor_extract :: "engine \<Rightarrow> chain \<Rightarrow> string \<Rightarrow> error + val" where
  "DataPrivacyStatementExtractor_extract search chain text =
     (case LLMExtractor_extract search chain DATA_PRIVACY_STATEMENT text of
        VDict result \<Rightarrow>
          and_then (process_trustee_signatures_from_flat_structure result) (\<lambda>r1.
          Inr (VDict (DataPrivacy_clean_boolean_fields r1)))
      | _ \<Rightarrow> Inl TypeError)"

section \<open>Properties of the normalisers\<close>

lemma map_of_dict_set_other: "k' \<noteq> k \<Longrightarrow> map_of (dict_set d k v) k' = map_of d k'"
  by (simp add: map_of_dict_set)

text \<open>
  C4 (as the code has it). In the trustee and in the beneficiary extractor, if the
  governing flag (\<open>solely_uk_citizen\<close>, \<open>born_in_uk\<close>) is true, then
  \<open>_process_non_uk_details\<close> sets the nested key (\<open>not_uk_details\<close>, \<open>not_born_in_uk\<close>)
  to exactly \<open>None\<close> and returns: nothing is merged into the nested key, and every other
  entry of the raw extraction, the flat dependent fields included, stays at top level
  with its value.
\<close>

theorem process_non_uk_details_flag_true:
  "(eq_True (map_of result ''solely_uk_citizen'') \<longrightarrow>
      Trustee_process_non_uk_details result = dict_set result ''not_uk_details'' VNull
      \<and> map_of (Trustee_process_non_uk_details result) ''not_uk_details'' = Some VNull
      \<and> (\<forall>k. k \<noteq> ''not_uk_details'' \<longrightarrow>
             map_of (Trustee_process_non_uk_details result) k = map_of result k))
   \<and> (eq_True (map_of result ''born_in_uk'') \<longrightarrow>
      Beneficiary_process_non_uk_details result = dict_set result ''not_born_in_uk'' VNull
      \<and> map_of (Beneficiary_process_non_uk_details result) ''not_born_in_uk'' = Some VNull
      \<and> (\<forall>k. k \<noteq> ''not_born_in_uk'' \<longrightarrow>
             map_of (Beneficiary_process_non_uk_details result) k = map_of result k))"
  by (simp add: Trustee_process_non_uk_details_def Beneficiary_process_non_uk_details_def
      process_non_uk_def map_of_dict_set)

theorem process_non_uk_details_flag_true_witness:
  "eq_True (map_of [(''born_in_uk'', VBool True), (''country_of_birth'', VStr ''France'')] ''born_in_uk'')
   \<and> Beneficiary_process_non_uk_details
        [(''born_in_uk'', VBool True), (''country_of_birth'', VStr ''France'')]
       = [(''born_in_uk'', VBool True), (''country_of_birth'', VStr ''France''),
          (''not_born_in_uk'', VNull)]
   \<and> eq_True (map_of [(''solely_uk_citizen'', VInt 1)] ''solely_uk_citizen'')
   \<and> Trustee_process_non_uk_details [(''solely_uk_citizen'', VInt 1)]
       = [(''solely_uk_citizen'', VInt 1), (''not_uk_details'', VNull)]"
  using process_non_uk_details_flag_true
          [of "[(''born_in_uk'', VBool True), (''country_of_birth'', VStr ''France'')]"]
        process_non_uk_details_flag_true [of "[(''solely_uk_citizen'', VInt 1)]"]
  by (simp add: eq_True_def)

text \<open>
  The claim as the specification states it fails: with \<open>solely_uk_citizen\<close> true, the
  flat fields \<open>country_of_birth\<close> and \<open>nationality\<close> of the raw extraction are still
  at top level in the result of the trustee normaliser.
\<close>

theorem process_non_uk_details_counterexample:
  "Trustee_process_non_uk_details
     [(''solely_uk_citizen'', VBool True), (''country_of_birth'', VStr ''France''),
      (''nationality'', VStr ''French'')]
   = [(''solely_uk_citizen'', VBool True), (''country_of_birth'', VStr ''France''),
      (''nationality'', VStr ''French''), (''not_uk_details'', VNull)]"
  by (simp add: Trustee_process_non_uk_details_def process_non_uk_def eq_True_def)

text \<open>
  C5. The claim holds for trustee numbers of equal length only. The groups are emitted
  in the order of \<open>sorted\<close> on the digit strings, which is lexicographic: the entry
  of group 10 comes before the entry of group 2.
\<close>

theorem trustee_signatures_string_order:
  "process_trustee_signatures_from_flat_structure
     [(''trustee2_name'', VStr ''B Jones''), (''trustee10_name'', VStr ''A Smith'')]
   = Inr [(''trustee_signatures'',
           VList [VDict [(''name'', VStr ''A Smith''), (''date'', VNull), (''signature'', VNull)],
                  VDict [(''name'', VStr ''B Jones''), (''date'', VNull), (''signature'', VNull)]])]"
  by (simp add: process_trustee_signatures_from_flat_structure_def dict_has_def get_truthy_def
      match_trustee_key_def is_digit_def is_word_def is_lower_def is_upper_def dict_pop_def
      set_trustee_field_def build_trustee_def get_or_None_def clean_signature_date_def
      append_signature_def and_then_def Let_def)

text \<open>The same run, read off the result: the name of trustee 10 is emitted first.\<close>

theorem trustee_signatures_string_order_witness:
  "map_of (case process_trustee_signatures_from_flat_structure
                  [(''trustee2_name'', VStr ''B Jones''), (''trustee10_name'', VStr ''A Smith'')] of
             Inl e \<Rightarrow> [] | Inr result \<Rightarrow> result) ''trustee_signatures''
   = Some (VList [VDict [(''name'', VStr ''A Smith''), (''date'', VNull), (''signature'', VNull)],
                  VDict [(''name'', VStr ''B Jones''), (''date'', VNull), (''signature'', VNull)]])"
  using trustee_signatures_string_order by simp

text \<open>
  C6. The date normalisation of the donor, trustee and beneficiary extractors is not
  total: on a date of birth with three parts whose year has two characters that are not
  a number, \<open>int(year)\<close> raises \<open>ValueError\<close>, and the exception leaves
  \<open>DonorExtractor.extract\<close>. The date clean-up of the data privacy extractor, which
  takes the year from a pattern of digits, returns the same string untouched.
\<close>

theorem clean_date_of_birth_raises:
  "clean_date_of_birth [(''date_of_birth'', VStr ''1/2/ab'')] = Inl ValueError
   \<and> DonorExtractor_extract no_match
        (\<lambda>section text. Inr (VDict [(''date_of_birth'', VStr ''1/2/ab'')])) [] = Inl ValueError
   \<and> clean_signature_date (VStr ''1/2/ab'') = Inr (VStr ''1/2/ab'')"
  by (simp add: clean_date_of_birth_def get_truthy_def int_of_str_def strip_def is_space_def
      is_digit_def DonorExtractor_extract_def LLMExtractor_extract_def and_then_def
      clean_signature_date_def match_date_here_def is_date_sep_def Let_def)

text \<open>
  C8. In the beneficiary extractor the fourth token of the list is not the check mark
  but the three characters that its UTF-8 bytes give when they are read as Windows-1252,
  so the raw value consisting of the check mark is coerced to \<open>False\<close> for \<open>born_in_uk\<close>;
  the trustee extractor coerces the same value to \<open>True\<close>.
\<close>

theorem clean_boolean_fields_check_mark:
  "Beneficiary_clean_boolean_fields [(''born_in_uk'', VStr [CHR 0xE2, CHR 0x9C, CHR 0x93])]
     = [(''born_in_uk'', VBool False)]
   \<and> Trustee_clean_boolean_fields [(''born_in_uk'', VStr [CHR 0xE2, CHR 0x9C, CHR 0x93])]
     = [(''born_in_uk'', VBool True)]"
  by (simp add: Beneficiary_clean_boolean_fields_def Trustee_clean_boolean_fields_def
      Beneficiary_truthy_tokens_def truthy_tokens_def lower_def lower_char_def)

lemma is_space_not_upper: "is_space c \<Longrightarrow> \<not> is_upper c"
  unfolding is_space_def is_upper_def by (elim disjE | simp)+

lemma upper_char_space: "is_space c \<Longrightarrow> upper_char c = c"
  unfolding is_space_def upper_char_def by (elim disjE | simp)+

lemma strip_all_space:
  assumes "list_all is_space s"
  shows "strip s = []"
proof -
  from assms have d: "dropWhile is_space s = []"
    by (induction s) simp_all
  show ?thesis unfolding strip_def d by simp
qed

lemma before_final_newline_space:
  "list_all is_space s \<Longrightarrow> list_all is_space (before_final_newline s)"
  by (auto simp: before_final_newline_def list_all_iff dest: in_set_butlastD)

lemma no_upper_start:
  assumes "list_all is_space t" and "2 \<le> length t"
  shows "\<not> list_all is_upper (take 2 t)"
proof (cases t)
  case Nil
  with assms show ?thesis by simp
next
  case (Cons a t')
  with assms have "is_space a" by simp
  then have "\<not> is_upper a" by (rule is_space_not_upper)
  with Cons show ?thesis by (simp add: numeral_2_eq_2)
qed

lemma normalise_ni_all_space:
  assumes "list_all is_space s"
  shows "normalise_ni s = []"
proof -
  let ?ni = "upper (filter (\<lambda>c. c \<noteq> CHR '' '') s)"
  have sp: "list_all is_space ?ni"
    using assms by (auto simp: upper_def list_all_iff upper_char_space)
  then have t: "list_all is_space (before_final_newline ?ni)"
    by (rule before_final_newline_space)
  have "\<not> ni_with_letter ?ni"
  proof
    assume "ni_with_letter ?ni"
    then have "length (before_final_newline ?ni) = 9"
      and up: "list_all is_upper (take 2 (before_final_newline ?ni))"
      by (simp_all add: ni_with_letter_def Let_def)
    then have "2 \<le> length (before_final_newline ?ni)" by simp
    from no_upper_start [OF t this] up show False by simp
  qed
  moreover have "\<not> ni_without_letter ?ni"
  proof
    assume "ni_without_letter ?ni"
    then have "length (before_final_newline ?ni) = 8"
      and up: "list_all is_upper (take 2 (before_final_newline ?ni))"
      by (simp_all add: ni_without_letter_def Let_def)
    then have "2 \<le> length (before_final_newline ?ni)" by simp
    from no_upper_start [OF t this] up show False by simp
  qed
  moreover have "filter (\<lambda>c. c \<noteq> CHR ''-'' \<and> \<not> is_space c) ?ni = []"
    using sp by (simp add: list_all_iff filter_empty_conv)
  ultimately show ?thesis
    by (simp add: normalise_ni_def Let_def)
qed

text \<open>
  C7 (as the code has it). For a raw identifier that is a string of whitespace only:
  the donor and trustee extractors never give \<open>None\<close>, they leave the empty string as
  it is and turn a non-empty string of whitespace into the empty string; the
  beneficiary extractor turns a non-empty string of whitespace into \<open>None\<close>.
\<close>

theorem national_insurance_number_whitespace:
  assumes "map_of result ''national_insurance_number'' = Some (VStr s)"
    and "list_all is_space s"
  shows "clean_national_insurance_number result
           = Inr (if s = [] then result
                  else dict_set result ''national_insurance_number'' (VStr []))
       \<and> (s \<noteq> [] \<longrightarrow> Beneficiary_clean_national_insurance_number result
                          = Inr (dict_set result ''national_insurance_number'' VNull))"
  using assms
  by (simp add: clean_national_insurance_number_def Beneficiary_clean_national_insurance_number_def
      get_truthy_def normalise_ni_all_space strip_all_space)

theorem national_insurance_number_whitespace_witness:
  "map_of [(''national_insurance_number'', VStr ''  '')] ''national_insurance_number'' = Some (VStr ''  '')
   \<and> list_all is_space ''  ''
   \<and> clean_national_insurance_number [(''national_insurance_number'', VStr ''  '')]
       = Inr [(''national_insurance_number'', VStr [])]
   \<and> Beneficiary_clean_national_insurance_number [(''national_insurance_number'', VStr ''  '')]
       = Inr [(''national_insurance_number'', VNull)]"
  using national_insurance_number_whitespace
          [of "[(''national_insurance_number'', VStr ''  '')]" "''  ''"]
  by (simp add: is_space_def)

text \<open>
  The claim as the specification states it fails: the donor and trustee normaliser
  turns the identifier of two spaces into the empty string, not into \<open>None\<close>, and
  leaves the empty identifier as the empty string.
\<close>

theorem national_insurance_number_counterexample:
  "clean_national_insurance_number [(''national_insurance_number'', VStr ''  '')]
     = Inr [(''national_insurance_number'', VStr [])]
   \<and> clean_national_insurance_number [(''national_insurance_number'', VStr [])]
     = Inr [(''national_insurance_number'', VStr [])]"
  by (simp add: clean_national_insurance_number_def get_truthy_def normalise_ni_def
      ni_with_letter_def ni_without_letter_def before_final_newline_def upper_def is_space_def
      Let_def)

section \<open>Orchestrator (main.py)\<close>

text \<open>
  The \<open>if\<close>/\<open>elif\<close> chain of \<open>process_document\<close> that builds the extractor of a section,
  followed by \<open>extractor.extract(section_text)\<close>.
\<close>

fun extractor_extract :: "engine \<Rightarrow> chain \<Rightarrow> DocumentSection \<Rightarrow> string \<Rightarrow> error + val" where
  "extractor_extract search chain TRUST_REGISTRATION text = TrustExtractor_extract search chain text"
| "extractor_extract search chain DONOR_DETAILS text = DonorExtractor_extract search chain text"
| "extractor_extract search chain TRUSTEE_DETAILS text = TrusteeExtractor_extract search chain text"
| "extractor_extract search chain BENEFICIARY_DETAILS text =
     BeneficiaryExtractor_extract search chain text"
| "extractor_extract search chain NOMINATED_BANK_ACCOUNT text =
     NominatedBankAccountExtractor_extract search chain text"
| "extractor_extract search chain SECURITY_INFORMATION text =
     SecurityInformationExtractor_extract search chain text"
| "extractor_extract search chain DATA_PRIVACY_STATEMENT text =
     DataPrivacyStatementExtractor_extract search chain text"

text \<open>\<open>" ".join(extracted_text[page] for page in pages)\<close>\<close>

fun join_with_space :: "string list \<Rightarrow> string" where
  "join_with_space [] = []"
| "join_with_space [t] = t"
| "join_with_space (t # ts) = t @ '' '' @ join_with_space ts"

definition section_text :: "(nat \<times> string) list \<Rightarrow> nat list \<Rightarrow> string" where
  "section_text extracted_text pages =
     join_with_space (map (\<lambda>page. case map_of extracted_text page of None \<Rightarrow> [] | Some t \<Rightarrow> t) pages)"

text \<open>\<open>identified_sections.get(section, [])\<close>\<close>

definition pages_of :: "(DocumentSection \<times> nat list) list \<Rightarrow> DocumentSection \<Rightarrow> nat list" where
  "pages_of identified_sections section =
     (case map_of identified_sections section of None \<Rightarrow> [] | Some pages \<Rightarrow> pages)"

text \<open>
  The sections to process: those named by a non-empty \<open>sections\<close> argument, in the
  order of the enumeration, else the identified sections that have pages.
\<close>

definition sections_to_process :: "string list option \<Rightarrow> (DocumentSection \<times> nat list) list
    \<Rightarrow> DocumentSection list" where
  "sections_to_process sections identified_sections =
     (case sections of
        Some (name # names) \<Rightarrow> filter (\<lambda>section. section_value section \<in> set (name # names)) all_sections
      | _ \<Rightarrow> map fst (filter (\<lambda>entry. snd entry \<noteq> []) identified_sections))"

text \<open>
  The loop over the sections. An exception of an extractor is caught nowhere and ends
  the run; otherwise the result of \<open>extractor.extract\<close> is stored as it is.
\<close>

fun process_sections :: "engine \<Rightarrow> chain \<Rightarrow> (nat \<times> string) list \<Rightarrow> (DocumentSection \<times> nat list) list
    \<Rightarrow> DocumentSection list \<Rightarrow> dict \<Rightarrow> error + dict" where
  "process_sections search chain extracted_text identified_sections [] results = Inr results"
| "process_sections search chain extracted_text identified_sections (section # rest) results =
     (let pages = pages_of identified_sections section
      in if pages = []
         then process_sections search chain extracted_text identified_sections rest results
         else (case extractor_extract search chain section (section_text extracted_text pages) of
                 Inl e \<Rightarrow> Inl e
               | Inr section_result \<Rightarrow>
                   process_sections search chain extracted_text identified_sections rest
                     (dict_set results (section_value section) section_result)))"

text \<open>
  \<open>process_document\<close> from the page texts on: the test for the file and the decoding
  of the PDF are outside of the model, \<open>extracted_text\<close> is what \<open>process_pdf\<close> returned.
\<close>

definition process_document :: "engine \<Rightarrow> chain \<Rightarrow> (nat \<times> string) list \<Rightarrow> string list option
    \<Rightarrow> error + dict" where
  "process_document search chain extracted_text sections =
     (let identified_sections = identify_sections extracted_text;
          todo = sections_to_process sections identified_sections
      in if todo = [] then Inr []
         else process_sections search chain extracted_text identified_sections todo [])"

section \<open>Schemas (schemas/*.py)\<close>

text \<open>
  The declared type of a field of a schema class; every field is \<open>Optional\<close>. The nested
  models (\<open>NonUKDetails\<close>, \<open>SecurityQuestions\<close>, \<open>TrusteeSignature\<close>) have string fields
  only and are given by the names of their fields.
\<close>

datatype field_type = TStr | TBool | TModel "string list" | TModelList "string list"

definition NonUKDetails_fields :: "string list" where
  "NonUKDetails_fields =
     [''country_of_birth'', ''nationality'', ''id_number'', ''type_of_number'',
      ''passport_number'', ''primary_residence'', ''secondary_residence'',
      ''country_of_citizenship'', ''second_country_of_citizenship'']"

fun schema_fields :: "DocumentSection \<Rightarrow> (string \<times> field_type) list" where
  "schema_fields TRUST_REGISTRATION =
     [(''HMRC_unique_reference_number'', TStr), (''proof_of_registration_attached'', TBool)]"
| "schema_fields DONOR_DETAILS =
     [(''title'', TStr), (''surname'', TStr), (''forenames'', TStr), (''date_of_birth'', TStr),
      (''national_insurance_number'', TStr), (''permanent_residential_address'', TStr),
      (''postcode'', TStr), (''country_of_residence'', TStr), (''country_of_nationality'', TStr),
      (''deceased'', TBool)]"
| "schema_fields TRUSTEE_DETAILS =
     [(''title'', TStr), (''surname'', TStr), (''forenames'', TStr), (''date_of_birth'', TStr),
      (''national_insurance_number'', TStr), (''permanent_residential_address'', TStr),
      (''postcode'', TStr), (''country'', TStr), (''telephone_number'', TStr),
      (''email_address'', TStr), (''existing_account'', TBool), (''account_number'', TStr),
      (''born_in_uk'', TBool), (''solely_uk_citizen'', TBool),
      (''not_uk_details'', TModel NonUKDetails_fields)]"
| "schema_fields BENEFICIARY_DETAILS =
     [(''title'', TStr), (''surname'', TStr), (''forenames'', TStr), (''date_of_birth'', TStr),
      (''national_insurance_number'', TStr), (''permanent_residential_address'', TStr),
      (''postcode'', TStr), (''country'', TStr), (''telephone_number'', TStr),
      (''email_address'', TStr), (''born_in_uk'', TBool),
      (''not_born_in_uk'', TModel NonUKDetails_fields)]"
| "schema_fields NOMINATED_BANK_ACCOUNT =
     [(''account_holder_name'', TStr), (''account_number'', TStr), (''sort_code'', TStr)]"
| "schema_fields SECURITY_INFORMATION =
     [(''username'', TStr),
      (''security_questions'', TModel [''mother_maiden_name'', ''first_school_name''])]"
| "schema_fields DATA_PRIVACY_STATEMENT =
     [(''identity_verification_consent'', TBool), (''fraud_prevention_checks_consent'', TBool),
      (''communication_preference_consent'', TBool),
      (''trustee_signatures'', TModelList [''name'', ''date'', ''signature''])]"

text \<open>
  An entity conforms to a schema when it is a dictionary whose keys are declared fields
  and whose values are \<open>None\<close> or of the declared type. This is less than what
  \<open>BaseExtractor.validate\<close> returns, which has every declared field as a key.
\<close>

definition is_optional_str :: "val \<Rightarrow> bool" where
  "is_optional_str v = (case v of VNull \<Rightarrow> True | VStr s \<Rightarrow> True | _ \<Rightarrow> False)"

definition conforms_model :: "string list \<Rightarrow> val \<Rightarrow> bool" where
  "conforms_model names v =
     (case v of
        VDict d \<Rightarrow> list_all (\<lambda>entry. fst entry \<in> set names \<and> is_optional_str (snd entry)) d
      | _ \<Rightarrow> False)"

fun conforms_field :: "field_type \<Rightarrow> val \<Rightarrow> bool" where
  "conforms_field t VNull = True"
| "conforms_field TStr v = is_optional_str v"
| "conforms_field TBool v = (case v of VBool b \<Rightarrow> True | _ \<Rightarrow> False)"
| "conforms_field (TModel names) v = conforms_model names v"
| "conforms_field (TModelList names) v =
     (case v of VList xs \<Rightarrow> list_all (conforms_model names) xs | _ \<Rightarrow> False)"

definition conforms_schema :: "DocumentSection \<Rightarrow> val \<Rightarrow> bool" where
  "conforms_schema section v =
     (case v of
        VDict d \<Rightarrow>
          list_all (\<lambda>entry. case map_of (schema_fields section) (fst entry) of
                               None \<Rightarrow> False
                             | Some t \<Rightarrow> conforms_field t (snd entry)) d
      | _ \<Rightarrow> False)"


section \<open>Properties of the orchestrator\<close>

lemma section_value_inj: "section_value a = section_value b \<Longrightarrow> a = b"
  by (cases a; cases b) simp_all

lemma process_sections_stores:
  assumes "process_sections search chain extracted_text identified todo results0 = Inr results"
    and "map_of results (section_value section) = Some entity"
  shows "map_of results0 (section_value section) = Some entity
       \<or> (pages_of identified section \<noteq> []
          \<and> extractor_extract search chain section
                (section_text extracted_text (pages_of identified section)) = Inr entity)"
  using assms
proof (induction todo arbitrary: results0)
  case Nil
  then show ?case by simp
next
  case (Cons s rest)
  show ?case
  proof (cases "pages_of identified s = []")
    case True
    with Cons.prems have "process_sections search chain extracted_text identified rest results0 = Inr results"
      by simp
    from Cons.IH [OF this Cons.prems(2)] show ?thesis .
  next
    case False
    show ?thesis
    proof (cases "extractor_extract search chain s (section_text extracted_text (pages_of identified s))")
      case (Inl e)
      with False Cons.prems show ?thesis by simp
    next
      case (Inr section_result)
      with False Cons.prems
      have "process_sections search chain extracted_text identified rest
              (dict_set results0 (section_value s) section_result) = Inr results"
        by simp
      from Cons.IH [OF this Cons.prems(2)]
      have "map_of (dict_set results0 (section_value s) section_result) (section_value section) = Some entity
          \<or> (pages_of identified section \<noteq> []
             \<and> extractor_extract search chain section
                   (section_text extracted_text (pages_of identified section)) = Inr entity)" .
      then show ?thesis
      proof
        assume stored: "map_of (dict_set results0 (section_value s) section_result)
                          (section_value section) = Some entity"
        show ?thesis
        proof (cases "section_value section = section_value s")
          case True
          then have "section = s" by (rule section_value_inj)
          moreover from stored True have "entity = section_result"
            by (simp add: map_of_dict_set)
          ultimately show ?thesis using False Inr by simp
        next
          case False
          with stored show ?thesis by (simp add: map_of_dict_set)
        qed
      next
        assume "pages_of identified section \<noteq> []
             \<and> extractor_extract search chain section
                   (section_text extracted_text (pages_of identified section)) = Inr entity"
        then show ?thesis by simp
      qed
    qed
  qed
qed

text \<open>The run on a document of one page with the text \<open>trustee details\<close>, model failing.\<close>

definition trustee_fallback_entity :: val where
  "trustee_fallback_entity =
     VDict [(''title'', VStr []), (''surname'', VStr []), (''forenames'', VStr []),
            (''date_of_birth'', VStr []), (''national_insurance_number'', VStr []),
            (''permanent_residential_address'', VStr []), (''postcode'', VStr []),
            (''country'', VStr []), (''telephone_number'', VStr []), (''email_address'', VStr []),
            (''existing_aj_bell_account'', VBool False), (''existing_account_number'', VStr []),
            (''born_in_uk'', VBool False), (''solely_uk_citizen'', VBool False),
            (''not_uk_details'',
             VDict [(''country_of_birth'', VStr []), (''nationality'', VStr []),
                    (''id_number'', VStr []), (''type_of_number'', VStr []),
                    (''passport_number'', VStr []), (''primary_residence'', VStr []),
                    (''secondary_residence'', VStr []), (''primary_citizenship'', VStr []),
                    (''secondary_citizenship'', VStr [])])]"

lemma identify_sections_trustee_page:
  "identify_sections [(0, ''trustee details'')]
     = [(TRUST_REGISTRATION, []), (DONOR_DETAILS, []), (TRUSTEE_DETAILS, [0]),
        (BENEFICIARY_DETAILS, []), (NOMINATED_BANK_ACCOUNT, []), (SECURITY_INFORMATION, []),
        (DATA_PRIVACY_STATEMENT, [])]"
  by (simp add: identify_sections_def classify_page_def check_section_def append_page_def
      any_marker_def lower_def lower_char_def all_sections_def)

lemma RegexExtractor_extract_no_match_trustee:
  "RegexExtractor_extract no_match TRUSTEE_DETAILS text
     = [(''title'', VStr []), (''surname'', VStr []), (''forenames'', VStr []),
        (''date_of_birth'', VStr []), (''national_insurance_number'', VStr []),
        (''permanent_residential_address'', VStr []), (''postcode'', VStr []),
        (''country'', VStr []), (''telephone_number'', VStr []), (''email_address'', VStr []),
        (''existing_aj_bell_account'', VStr []), (''existing_account_number'', VStr []),
        (''born_in_uk'', VBool False), (''solely_uk_citizen'', VStr []),
        (''country_of_birth'', VStr []), (''nationality'', VStr []), (''id_number'', VStr []),
        (''type_of_number'', VStr []), (''passport_number'', VStr []),
        (''primary_residence'', VStr []), (''secondary_residence'', VStr []),
        (''primary_citizenship'', VStr []), (''secondary_citizenship'', VStr [])]"
  by (simp add: RegexExtractor_extract_eq no_match_def default_value_def)

lemma TrusteeExtractor_extract_fallback_defaults:
  "TrusteeExtractor_extract no_match failing_chain text = Inr trustee_fallback_entity"
  by (simp add: TrusteeExtractor_extract_def LLMExtractor_extract_def failing_chain_def
      RegexExtractor_extract_no_match_trustee clean_date_of_birth_def
      clean_national_insurance_number_def clean_address_fields_def clean_postcode_def
      clean_address_def get_truthy_def and_then_def Trustee_clean_boolean_fields_def
      truthy_tokens_def lower_def Trustee_process_non_uk_details_def process_non_uk_def
      eq_True_def trustee_non_uk_fields_def dict_pop_def trustee_fallback_entity_def)

lemma process_document_trustee_page:
  "process_document no_match failing_chain [(0, ''trustee details'')] None
     = Inr [(''trustee_details'', trustee_fallback_entity)]"
  by (simp add: process_document_def sections_to_process_def identify_sections_trustee_page
      pages_of_def section_text_def TrusteeExtractor_extract_fallback_defaults)

text \<open>
  C1 (as the code has it). For every document and every section whose result the
  orchestrator stores, the section has matched pages and the stored result is exactly
  what the extractor of the section returns on the space-joined text of these pages:
  the output of the model-backed strategy (or of its fallback) after the normaliser
  steps of the section. \<open>BaseExtractor.validate\<close> is not called, so the stored result is
  not checked against the schema of the section.
\<close>

theorem process_document_stores_extract:
  assumes "process_document search chain extracted_text sections = Inr results"
    and "map_of results (section_value section) = Some entity"
  shows "pages_of (identify_sections extracted_text) section \<noteq> []
       \<and> extractor_extract search chain section
            (section_text extracted_text (pages_of (identify_sections extracted_text) section))
          = Inr entity"
proof (cases "sections_to_process sections (identify_sections extracted_text) = []")
  case True
  with assms(1) have "results = []"
    by (simp add: process_document_def Let_def)
  with assms(2) show ?thesis by simp
next
  case False
  with assms(1)
  have "process_sections search chain extracted_text (identify_sections extracted_text)
          (sections_to_process sections (identify_sections extracted_text)) [] = Inr results"
    by (simp add: process_document_def Let_def)
  from process_sections_stores [OF this assms(2)] show ?thesis by simp
qed

theorem process_document_stores_extract_witness:
  "process_document no_match failing_chain [(0, ''trustee details'')] None
     = Inr [(''trustee_details'', trustee_fallback_entity)]
   \<and> map_of [(''trustee_details'', trustee_fallback_entity)] (section_value TRUSTEE_DETAILS)
     = Some trustee_fallback_entity
   \<and> pages_of (identify_sections [(0, ''trustee details'')]) TRUSTEE_DETAILS = [0]
   \<and> extractor_extract no_match failing_chain TRUSTEE_DETAILS ''trustee details''
     = Inr trustee_fallback_entity"
  using process_document_stores_extract
          [of no_match failing_chain "[(0, ''trustee details'')]" None
              "[(''trustee_details'', trustee_fallback_entity)]" TRUSTEE_DETAILS
              trustee_fallback_entity]
  by (simp add: process_document_trustee_page identify_sections_trustee_page pages_of_def
      section_text_def)

text \<open>
  The claim as the specification states it fails: with the model failing, the entity
  stored for the page \<open>trustee details\<close> has the keys \<open>existing_aj_bell_account\<close> and
  \<open>existing_account_number\<close>, which the schema \<open>TrusteeDetails\<close> does not declare, and
  its nested object has keys that \<open>NonUKDetails\<close> does not declare: it does not conform
  to the registered schema of the section.
\<close>

theorem process_document_counterexample:
  "process_document no_match failing_chain [(0, ''trustee details'')] None
     = Inr [(''trustee_details'', trustee_fallback_entity)]
   \<and> \<not> conforms_schema TRUSTEE_DETAILS trustee_fallback_entity"
  by (simp add: process_document_trustee_page conforms_schema_def trustee_fallback_entity_def)

end
